theory Spec2Isabelle
  imports Main "HOL-Library.Sublist"
begin

section \<open>Values exchanged with the editor host and the language server\<close>

text \<open>
  The client in \<^verbatim>\<open>src/client/xmlClient.ts\<close> is event-driven glue: every handler it
  registers reads some host state and issues calls on the host or on the language client.
  A handler is modelled as a function from the event (and the host state it reads) to the
  list of calls it issues, in program order. Values typed \<^verbatim>\<open>any\<close> in the source are JSON
  values.
\<close>

datatype jsval =
    JUndefined
  | JNull
  | JBool bool
  | JNum int
  | JStr string
  | JArr "jsval list"
  | JObj "(string \<times> jsval) list"

text \<open>The three prompt functions of \<^verbatim>\<open>window\<close> a handler can pick as \<^verbatim>\<open>show\<close>.\<close>

datatype prompt = showInformationMessage | showWarningMessage | showErrorMessage

text \<open>The one notification type the client sends itself.\<close>

datatype notification_type = DidChangeConfigurationNotification

text \<open>
  The calls a handler issues. \<open>SendTelemetry\<close> carries the address of the properties
  object it is given, not a copy of it, or \<open>None\<close> when it is given \<^verbatim>\<open>undefined\<close>.
\<close>

datatype effect =
    ExecuteCommand string "jsval list"
  | ShowMessage prompt string "string list"
  | SendNotification notification_type jsval
  | OnConfigurationChange
  | ConfigurationUpdate string string jsval
  | SendTelemetry string "nat option"

datatype js_error = TypeError | StartRejected

section \<open>The host's reaction to a call\<close>

text \<open>
  Two calls change state that the host keeps: the built-in command \<^verbatim>\<open>setContext\<close> sets a
  context key, and \<^verbatim>\<open>workspace.getConfiguration(section).update(key, value)\<close> stores a
  configuration value. Every other call leaves both stores as they are.
\<close>

record host_state =
  contexts :: "string \<rightharpoonup> jsval"
  configuration :: "string \<times> string \<rightharpoonup> jsval"

fun host_step :: "host_state \<Rightarrow> effect \<Rightarrow> host_state" where
  "host_step h (ExecuteCommand c args) =
     (if c = ''setContext''
      then (case args of
              [JStr k, v] \<Rightarrow> h\<lparr>contexts := (contexts h)(k \<mapsto> v)\<rparr>
            | _ \<Rightarrow> h)
      else h)"
| "host_step h (ConfigurationUpdate sect k v) =
     h\<lparr>configuration := (configuration h)((sect, k) \<mapsto> v)\<rparr>"
| "host_step h _ = h"

definition host_run :: "host_state \<Rightarrow> effect list \<Rightarrow> host_state" where
  "host_run h effs = foldl host_step h effs"

section \<open>Session state changes (lines 41 to 44)\<close>

datatype State = Stopped | Starting | Running

record StateChangeEvent =
  oldState :: State
  newState :: State

definition onDidChangeState :: "StateChangeEvent \<Rightarrow> effect list" where
  "onDidChangeState e =
     [ExecuteCommand ''setContext'' [JStr ''XMLLSReady'', JBool (newState e = Running)]]"

section \<open>Telemetry events (lines 46 to 55)\<close>

text \<open>
  The handler assigns into the properties object of the event it receives and passes that
  same object on, so objects live in a store and an event holds the address of its
  properties, or \<open>None\<close> when it comes without any: the payload of a telemetry
  notification is not checked on receipt. Assigning into the properties of an event that
  has none throws a \<^verbatim>\<open>TypeError\<close>, and the handler then sends nothing. The three names of the telemetry module (\<^verbatim>\<open>../telemetry\<close>) are constants
  whose values are not part of this file; they are parameters here.
\<close>

type_synonym object = "string \<rightharpoonup> jsval"

type_synonym heap = "nat \<Rightarrow> object"

record TelemetryEvent =
  name :: string
  properties :: "nat option"

record telemetry_names =
  SERVER_INITIALIZED_EVT :: string
  SETTINGS_EVT :: string
  STARTUP_EVT :: string

text \<open>
  What the handlers use of the settings module (\<^verbatim>\<open>../settings/settings\<close>,
  \<^verbatim>\<open>../settings/variableSubstitution\<close>), each reading the host configuration \<open>'w\<close> as it is
  when it is called: \<open>getXMLSettings java_home logfile externalXmlSettings\<close>, the value of
  \<^verbatim>\<open>getXMLConfiguration().get('fileAssociations')\<close>, the value of
  \<^verbatim>\<open>getXMLConfiguration()['server']['preferBinary']\<close>, and the test for a variable that
  refers to the current file.
\<close>

record ('x, 'w) settings_module =
  getXMLSettings :: "string \<Rightarrow> string \<Rightarrow> 'x \<Rightarrow> 'w \<Rightarrow> jsval"
  fileAssociations :: "'w \<Rightarrow> jsval"
  server_preferBinary :: "'w \<Rightarrow> jsval"
  containsVariableReferenceToCurrentFile :: "jsval \<Rightarrow> bool"

definition onTelemetry ::
  "telemetry_names \<Rightarrow> ('x, 'w) settings_module \<Rightarrow> 'w \<Rightarrow> TelemetryEvent \<Rightarrow> heap
     \<Rightarrow> js_error + heap \<times> effect list" where
  "onTelemetry T S w e hp =
     (if name e = SERVER_INITIALIZED_EVT T
      then (case properties e of
              None \<Rightarrow> Inl TypeError
            | Some a \<Rightarrow>
                Inr (hp(a := (hp a)(SETTINGS_EVT T \<mapsto>
                                JObj [(''preferBinary'', server_preferBinary S w)])),
                     [SendTelemetry (STARTUP_EVT T) (properties e)]))
      else Inr (hp, [SendTelemetry (name e) (properties e)]))"

section \<open>Configuration pull (lines 89 to 104)\<close>

record 'uri TextEditor =
  document_uri :: 'uri
  options_insertSpaces :: jsval
  options_tabSize :: jsval

record ConfigurationItem =
  scopeUri :: string
  section_name :: string

text \<open>
  What the handler reads of the host: \<^verbatim>\<open>window.activeTextEditor\<close>, \<^verbatim>\<open>Uri.parse\<close>,
  \<^verbatim>\<open>toString\<close> on a URI, and \<^verbatim>\<open>workspace.getConfiguration(null, uri).get(section)\<close>.
\<close>

record 'uri host =
  activeTextEditor :: "'uri TextEditor option"
  Uri_parse :: "string \<Rightarrow> 'uri"
  Uri_toString :: "'uri \<Rightarrow> string"
  getConfiguration_get :: "'uri \<Rightarrow> string \<Rightarrow> jsval"

text \<open>One pass of the loop body: \<open>result\<close> before the item, \<open>result\<close> after it.\<close>

definition configuration_item :: "'uri host \<Rightarrow> jsval list \<Rightarrow> ConfigurationItem \<Rightarrow> jsval list" where
  "configuration_item h result item =
     (case activeTextEditor h of
        Some activeEditor \<Rightarrow>
          if Uri_toString h (document_uri activeEditor)
               = Uri_toString h (Uri_parse h (scopeUri item))
          then
            (if section_name item = ''xml.format.insertSpaces''
             then result @ [options_insertSpaces activeEditor]
             else if section_name item = ''xml.format.tabSize''
             then result @ [options_tabSize activeEditor]
             else result)
          else result @ [getConfiguration_get h (Uri_parse h (scopeUri item)) (section_name item)]
      | None \<Rightarrow>
          result @ [getConfiguration_get h (Uri_parse h (scopeUri item)) (section_name item)])"

fun configuration_loop :: "'uri host \<Rightarrow> ConfigurationItem list \<Rightarrow> jsval list \<Rightarrow> jsval list" where
  "configuration_loop h [] result = result"
| "configuration_loop h (item # items) result =
     configuration_loop h items (configuration_item h result item)"

definition onConfigurationRequest :: "'uri host \<Rightarrow> ConfigurationItem list \<Rightarrow> jsval list" where
  "onConfigurationRequest h items = configuration_loop h items []"

text \<open>
  The entry the specification gives an item: the active editor's own option when the
  item's scope is the active document and its section is one of the two formatting
  sections, the global configuration value scoped to the item's URI otherwise.
\<close>

definition scope_is_active :: "'uri host \<Rightarrow> ConfigurationItem \<Rightarrow> bool" where
  "scope_is_active h item =
     (case activeTextEditor h of
        None \<Rightarrow> False
      | Some activeEditor \<Rightarrow>
          Uri_toString h (document_uri activeEditor)
            = Uri_toString h (Uri_parse h (scopeUri item)))"

definition spec_entry :: "'uri host \<Rightarrow> ConfigurationItem \<Rightarrow> jsval" where
  "spec_entry h item =
     (case activeTextEditor h of
        Some activeEditor \<Rightarrow>
          if scope_is_active h item \<and> section_name item = ''xml.format.insertSpaces''
          then options_insertSpaces activeEditor
          else if scope_is_active h item \<and> section_name item = ''xml.format.tabSize''
          then options_tabSize activeEditor
          else getConfiguration_get h (Uri_parse h (scopeUri item)) (section_name item)
      | None \<Rightarrow> getConfiguration_get h (Uri_parse h (scopeUri item)) (section_name item))"

text \<open>An item the source's inner \<^verbatim>\<open>if\<close> chain has no branch for.\<close>

definition unanswered :: "'uri host \<Rightarrow> ConfigurationItem \<Rightarrow> bool" where
  "unanswered h item \<longleftrightarrow>
     scope_is_active h item \<and> section_name item \<noteq> ''xml.format.insertSpaces''
       \<and> section_name item \<noteq> ''xml.format.tabSize''"

section \<open>Active editor changes and workspace trust (lines 106 to 121)\<close>

definition onDidChangeActiveTextEditor ::
  "('x, 'w) settings_module \<Rightarrow> string \<Rightarrow> string \<Rightarrow> 'x \<Rightarrow> 'w \<Rightarrow> effect list" where
  "onDidChangeActiveTextEditor S java_home logfile externalXmlSettings w =
     (if containsVariableReferenceToCurrentFile S (fileAssociations S w)
      then [SendNotification DidChangeConfigurationNotification
              (JObj [(''settings'', getXMLSettings S java_home logfile externalXmlSettings w)]),
            OnConfigurationChange]
      else [])"

definition onDidGrantWorkspaceTrust ::
  "('x, 'w) settings_module \<Rightarrow> string \<Rightarrow> string \<Rightarrow> 'x \<Rightarrow> 'w \<Rightarrow> effect list" where
  "onDidGrantWorkspaceTrust S java_home logfile externalXmlSettings w =
     [SendNotification DidChangeConfigurationNotification
        (JObj [(''settings'', getXMLSettings S java_home logfile externalXmlSettings w)]),
      ConfigurationUpdate ''xml'' ''downloadExternalResources.enabled'' (JBool True)]"

text \<open>
  What \<^verbatim>\<open>startLanguageClient\<close> pushes on \<^verbatim>\<open>context.subscriptions\<close>, in program order.
  Two host events are optional: the function asks whether the host has them before it
  subscribes. A start of the client that is rejected ends the function before any of it.
\<close>

datatype subscription =
    JDKChangeConfiguration
  | TagClosing
  | ExtensionsDidChange
  | DidChangeActiveTextEditor
  | DidGrantWorkspaceTrust

record host_api =
  extensions_onDidChange :: bool
  workspace_onDidGrantWorkspaceTrust :: bool

definition startLanguageClient :: "host_api \<Rightarrow> bool \<Rightarrow> js_error + subscription list" where
  "startLanguageClient api started =
     (if \<not> started then Inl StartRejected
      else Inr ([JDKChangeConfiguration, TagClosing]
                @ (if extensions_onDidChange api then [ExtensionsDidChange] else [])
                @ [DidChangeActiveTextEditor]
                @ (if workspace_onDidGrantWorkspaceTrust api then [DidGrantWorkspaceTrust]
                   else [])))"

section \<open>Client options (lines 126 to 168)\<close>

datatype RevealOutputChannelOn = Info | Warn | Error | Never

record LanguageClientOptions =
  revealOutputChannelOn :: RevealOutputChannelOn
  initializationOptions :: jsval
  synchronize_configurationSection :: "string list"

definition extendedClientCapabilities :: jsval where
  "extendedClientCapabilities =
     JObj [(''codeLens'',
              JObj [(''codeLensKind'',
                       JObj [(''valueSet'',
                                JArr [JStr ''references'', JStr ''association'',
                                      JStr ''open.uri''])])]),
           (''actionableNotificationSupport'', JBool True),
           (''openSettingsCommandSupport'', JBool True),
           (''bindingWizardSupport'', JBool True)]"

definition getLanguageClientOptions ::
  "('x, 'w) settings_module \<Rightarrow> string \<Rightarrow> 'x \<Rightarrow> string \<Rightarrow> 'w \<Rightarrow> LanguageClientOptions" where
  "getLanguageClientOptions S logfile externalXmlSettings java_home w =
     \<lparr>revealOutputChannelOn = Never,
      initializationOptions =
        JObj [(''settings'', getXMLSettings S java_home logfile externalXmlSettings w),
              (''extendedClientCapabilities'', extendedClientCapabilities)],
      synchronize_configurationSection =
        [''xml'', ''[xml]'', ''files.trimFinalNewlines'', ''files.trimTrailingWhitespace'',
         ''files.insertFinalNewline'', ''editor.linkedEditing'']\<rparr>"

definition middleware_didChangeConfiguration ::
  "('x, 'w) settings_module \<Rightarrow> string \<Rightarrow> string \<Rightarrow> 'x \<Rightarrow> 'w \<Rightarrow> effect list" where
  "middleware_didChangeConfiguration S java_home logfile externalXmlSettings w =
     [SendNotification DidChangeConfigurationNotification
        (JObj [(''settings'', getXMLSettings S java_home logfile externalXmlSettings w)]),
      OnConfigurationChange]"

text \<open>
  Modelled from the spec: the client library's use of the synchronisation filter, which
  is not among the sources. The specification's words are "only these
  configuration-section prefixes trigger change notifications", and the source comments
  the list with "preferences starting with these will trigger didChangeConfiguration":
  a changed preference triggers a notification when it starts with one of the listed
  sections.
\<close>

definition triggers_didChangeConfiguration :: "LanguageClientOptions \<Rightarrow> string \<Rightarrow> bool" where
  "triggers_didChangeConfiguration opts preference =
     list_ex (\<lambda>p. prefix p preference) (synchronize_configurationSection opts)"

section \<open>Actionable notifications (lines 25 to 30 and 170 to 197)\<close>

text \<open>
  The severity arrives as a number; the protocol's \<^verbatim>\<open>MessageType\<close> numbers errors 1,
  warnings 2, information 3 and log messages 4.
\<close>

definition MessageType_Error :: int where "MessageType_Error = 1"
definition MessageType_Warning :: int where "MessageType_Warning = 2"
definition MessageType_Info :: int where "MessageType_Info = 3"
definition MessageType_Log :: int where "MessageType_Log = 4"

record Command =
  title :: string
  command :: string
  arguments :: "jsval list option"

record ActionableMessage =
  severity :: int
  message :: string
  data :: "jsval option"
  commands :: "Command list option"

text \<open>The \<^verbatim>\<open>switch\<close>: \<open>None\<close> is \<^verbatim>\<open>show\<close> left \<^verbatim>\<open>null\<close>.\<close>

definition select_show :: "int \<Rightarrow> prompt option" where
  "select_show sev =
     (if sev = MessageType_Info then Some showInformationMessage
      else if sev = MessageType_Warning then Some showWarningMessage
      else if sev = MessageType_Error then Some showErrorMessage
      else None)"

text \<open>
  The notification handler up to the call of \<^verbatim>\<open>show\<close>. Reading \<^verbatim>\<open>.map\<close> of an absent
  \<^verbatim>\<open>commands\<close> throws a \<^verbatim>\<open>TypeError\<close>.
\<close>

definition onActionableNotification :: "ActionableMessage \<Rightarrow> js_error + effect list" where
  "onActionableNotification notification =
     (case select_show (severity notification) of
        None \<Rightarrow> Inr []
      | Some show \<Rightarrow>
          (case commands notification of
             None \<Rightarrow> Inl TypeError
           | Some actions \<Rightarrow>
               Inr [ShowMessage show (message notification) (map title actions)]))"

text \<open>
  The callback given to \<^verbatim>\<open>then\<close>: the loop over the actions, which stops at the first
  action whose title is the selection. \<open>None\<close> is the prompt dismissed
  (\<^verbatim>\<open>selection\<close> is \<^verbatim>\<open>undefined\<close>).
\<close>

fun run_selection :: "Command list \<Rightarrow> string option \<Rightarrow> effect list" where
  "run_selection [] selection = []"
| "run_selection (action # rest) selection =
     (if Some (title action) = selection
      then [ExecuteCommand (command action)
              (case arguments action of Some args \<Rightarrow> args | None \<Rightarrow> [])]
      else run_selection rest selection)"

definition onPromptResolved :: "ActionableMessage \<Rightarrow> string option \<Rightarrow> js_error + effect list" where
  "onPromptResolved notification selection =
     (case commands notification of
        None \<Rightarrow> Inl TypeError
      | Some actions \<Rightarrow> Inr (run_selection actions selection))"

section \<open>What the telemetry sink receives\<close>

text \<open>
  The sink is handed a name and the address of a properties object; what it receives is
  the object as the store holds it when the handler is done. From a handler that has
  thrown it receives nothing.
\<close>

fun sent_telemetry :: "heap \<Rightarrow> effect list \<Rightarrow> (string \<times> object option) list" where
  "sent_telemetry hp [] = []"
| "sent_telemetry hp (SendTelemetry n a # effs) = (n, map_option hp a) # sent_telemetry hp effs"
| "sent_telemetry hp (_ # effs) = sent_telemetry hp effs"

definition telemetry_sink :: "js_error + heap \<times> effect list \<Rightarrow> (string \<times> object option) list" where
  "telemetry_sink r = (case r of Inl _ \<Rightarrow> [] | Inr (hp, effs) \<Rightarrow> sent_telemetry hp effs)"

section \<open>Concrete inputs\<close>

text \<open>
  A host whose active editor shows \<^verbatim>\<open>file:///a.xml\<close> with spaces and a tab size of 4,
  whose URIs are their own strings, and whose global configuration holds a tab size of 8,
  \<^verbatim>\<open>false\<close> for inserting spaces, \<^verbatim>\<open>true\<close> for \<^verbatim>\<open>xml.format.enabled\<close> and nothing else.
\<close>

definition example_host :: "string host" where
  "example_host =
     \<lparr>activeTextEditor =
        Some \<lparr>document_uri = ''file:///a.xml'', options_insertSpaces = JBool True,
              options_tabSize = JNum 4\<rparr>,
      Uri_parse = (\<lambda>s. s),
      Uri_toString = (\<lambda>u. u),
      getConfiguration_get =
        (\<lambda>u s. if s = ''xml.format.tabSize'' then JNum 8
               else if s = ''xml.format.insertSpaces'' then JBool False
               else if s = ''xml.format.enabled'' then JBool True
               else JUndefined)\<rparr>"

text \<open>
  A settings module over a host configuration that is just the list of file
  associations' patterns: a pattern refers to the current file when it is
  \<^verbatim>\<open>${fileBasename}\<close>.
\<close>

definition example_settings :: "(unit, string list) settings_module" where
  "example_settings =
     \<lparr>getXMLSettings = (\<lambda>java_home logfile x w.
         JObj [(''java_home'', JStr java_home), (''logfile'', JStr logfile),
               (''fileAssociations'', JArr (map JStr w))]),
      fileAssociations = (\<lambda>w. JArr (map JStr w)),
      server_preferBinary = (\<lambda>w. JBool False),
      containsVariableReferenceToCurrentFile =
        (\<lambda>v. case v of JArr ps \<Rightarrow> list_ex (\<lambda>p. p = JStr ''${fileBasename}'') ps | _ \<Rightarrow> False)\<rparr>"

text \<open>Sample values for the three names of the telemetry module.\<close>

definition example_names :: telemetry_names where
  "example_names =
     \<lparr>SERVER_INITIALIZED_EVT = ''server.initialized'', SETTINGS_EVT = ''xml.settings'',
      STARTUP_EVT = ''startup''\<rparr>"

text \<open>The message of the specification's example, with a third action that repeats a title.\<close>

definition example_message :: ActionableMessage where
  "example_message =
     \<lparr>severity = MessageType_Warning, message = ''The schema could not be loaded'',
      data = None,
      commands =
        Some [\<lparr>title = ''Fix'', command = ''x.fix'', arguments = Some [JNum 1]\<rparr>,
              \<lparr>title = ''Ignore'', command = ''x.ignore'', arguments = None\<rparr>,
              \<lparr>title = ''Fix'', command = ''x.other'', arguments = Some []\<rparr>]\<rparr>"

section \<open>Properties\<close>

subsection \<open>The server-ready flag\<close>

lemma host_run_onDidChangeState:
  "contexts (host_run h (onDidChangeState e)) ''XMLLSReady'' = Some (JBool (newState e = Running))"
  by (simp add: host_run_def onDidChangeState_def)

lemma host_run_append: "host_run h (effs @ effs') = host_run (host_run h effs) effs'"
  by (simp add: host_run_def)

text \<open>
  Over a run of transitions the key follows the state reported last, since each handler
  overwrites what the one before it has set.
\<close>

lemma server_ready_tracks_last_state:
  assumes "es \<noteq> []"
  shows "contexts (host_run h (concat (map onDidChangeState es))) ''XMLLSReady''
           = Some (JBool (newState (last es) = Running))"
  using assms
proof (induction es rule: rev_induct)
  case Nil
  then show ?case by simp
next
  case (snoc e es)
  show ?case
    by (simp add: host_run_append host_run_onDidChangeState)
qed

text \<open>
  Claim C7. After the handler of a session-state transition has run, whatever the host
  state was before, the context key \<^verbatim>\<open>XMLLSReady\<close> holds a boolean, and that boolean is
  true exactly when the state the event reports as new is \<open>Running\<close>.
\<close>

theorem server_ready_iff_running:
  "(\<exists>b. contexts (host_run h (onDidChangeState e)) ''XMLLSReady'' = Some (JBool b)) \<and>
   (contexts (host_run h (onDidChangeState e)) ''XMLLSReady'' = Some (JBool True)
      \<longleftrightarrow> newState e = Running)"
  by (simp add: host_run_onDidChangeState)

subsection \<open>Configuration pull\<close>

text \<open>
  The loop appends, for every item it has a branch for, the entry the specification
  gives that item, and appends nothing for the others.
\<close>

lemma configuration_loop_append:
  "configuration_loop h items result
     = result @ map (spec_entry h) (filter (\<lambda>i. \<not> unanswered h i) items)"
proof (induction items arbitrary: result)
  case Nil
  then show ?case by simp
next
  case (Cons item items)
  show ?case
    by (simp add: Cons.IH configuration_item_def spec_entry_def unanswered_def
        scope_is_active_def split: option.splits)
qed

lemma onConfigurationRequest_answered:
  "onConfigurationRequest h items
     = map (spec_entry h) (filter (\<lambda>i. \<not> unanswered h i) items)"
  by (simp add: onConfigurationRequest_def configuration_loop_append)

lemma onConfigurationRequest_all_answered:
  assumes "\<not> list_ex (unanswered h) items"
  shows "onConfigurationRequest h items = map (spec_entry h) items"
proof -
  from assms have "filter (\<lambda>i. \<not> unanswered h i) items = items"
    by (induction items) auto
  then show ?thesis
    by (simp add: onConfigurationRequest_answered)
qed

text \<open>
  Claim C1. The claim asks for one entry per requested item, in request order, the entry
  of an item being \<open>spec_entry\<close>. The handler does not do that: asked, for the active
  document, first for \<^verbatim>\<open>xml.format.enabled\<close> and then for \<^verbatim>\<open>xml.format.tabSize\<close>, it
  answers with one entry, the editor's tab size, where the claim's answer has two, the
  global value of \<^verbatim>\<open>xml.format.enabled\<close> and then the tab size.
\<close>

theorem configuration_pull_skips_item:
  "onConfigurationRequest example_host
     [\<lparr>scopeUri = ''file:///a.xml'', section_name = ''xml.format.enabled''\<rparr>,
      \<lparr>scopeUri = ''file:///a.xml'', section_name = ''xml.format.tabSize''\<rparr>]
     = [JNum 4] \<and>
   map (spec_entry example_host)
     [\<lparr>scopeUri = ''file:///a.xml'', section_name = ''xml.format.enabled''\<rparr>,
      \<lparr>scopeUri = ''file:///a.xml'', section_name = ''xml.format.tabSize''\<rparr>]
     = [JBool True, JNum 4]"
  by (simp add: onConfigurationRequest_def configuration_item_def spec_entry_def
      scope_is_active_def example_host_def)

subsection \<open>Actionable notifications\<close>

lemma select_show_Some:
  "select_show sev = Some p \<longleftrightarrow>
     (sev = MessageType_Info \<and> p = showInformationMessage) \<or>
     (sev = MessageType_Warning \<and> p = showWarningMessage) \<or>
     (sev = MessageType_Error \<and> p = showErrorMessage)"
  by (auto simp: select_show_def MessageType_Info_def MessageType_Warning_def
      MessageType_Error_def)

lemma select_show_None:
  "select_show sev = None \<longleftrightarrow>
     sev \<noteq> MessageType_Info \<and> sev \<noteq> MessageType_Warning \<and> sev \<noteq> MessageType_Error"
  by (simp add: select_show_def)

text \<open>With the list of actions present, the handler does what claim C2 says.\<close>

lemma onActionableNotification_present:
  assumes "commands notification = Some actions"
  shows "onActionableNotification notification =
           (case select_show (severity notification) of
              None \<Rightarrow> Inr []
            | Some p \<Rightarrow> Inr [ShowMessage p (message notification) (map title actions)])"
  using assms by (simp add: onActionableNotification_def split: option.splits)

text \<open>
  Claim C2. The claim asks for exactly one prompt for every message whose severity is
  information, warning or error. The handler shows none and throws when such a message
  comes without a list of actions, which the message's declaration allows.
\<close>

theorem no_prompt_without_commands:
  "onActionableNotification
     \<lparr>severity = MessageType_Info, message = ''Downloading is disabled'', data = None,
      commands = None\<rparr> = Inl TypeError \<and>
   onActionableNotification
     \<lparr>severity = MessageType_Warning, message = ''Downloading is disabled'', data = None,
      commands = None\<rparr> = Inl TypeError \<and>
   onActionableNotification
     \<lparr>severity = MessageType_Error, message = ''Downloading is disabled'', data = None,
      commands = None\<rparr> = Inl TypeError"
  by (simp add: onActionableNotification_def select_show_def MessageType_Info_def
      MessageType_Warning_def MessageType_Error_def)

lemma run_selection_dismissed: "run_selection actions None = []"
  by (induction actions) simp_all

lemma run_selection_no_match:
  "\<forall>a \<in> set actions. title a \<noteq> t \<Longrightarrow> run_selection actions (Some t) = []"
  by (induction actions) simp_all

lemma run_selection_first_match:
  assumes "i < length actions"
    and "title (actions ! i) = t"
    and "\<forall>j<i. title (actions ! j) \<noteq> t"
  shows "run_selection actions (Some t) =
           [ExecuteCommand (command (actions ! i))
              (case arguments (actions ! i) of Some args \<Rightarrow> args | None \<Rightarrow> [])]"
  using assms
proof (induction actions arbitrary: i)
  case Nil
  then show ?case by simp
next
  case (Cons a actions)
  show ?case
  proof (cases i)
    case 0
    with Cons.prems show ?thesis by simp
  next
    case (Suc k)
    from Cons.prems(3) Suc have head: "title a \<noteq> t" by auto
    from Cons.prems Suc have "k < length actions" "title (actions ! k) = t"
      by simp_all
    moreover from Cons.prems(3) Suc have "\<forall>j<k. title (actions ! j) \<noteq> t"
      by auto
    ultimately have "run_selection actions (Some t) =
        [ExecuteCommand (command (actions ! k))
           (case arguments (actions ! k) of Some args \<Rightarrow> args | None \<Rightarrow> [])]"
      by (rule Cons.IH)
    with head Suc show ?thesis by simp
  qed
qed

text \<open>
  Claim C3. A prompt that was shown has its list of actions. When the prompt resolves
  with the title \<open>t\<close>, and \<open>i\<close> is the first position whose action has that title, the
  callback issues exactly one call: the command of action \<open>i\<close>, with its arguments, or
  with no argument when it has none; later actions with the same title issue nothing.
  When the prompt is dismissed, or no action has the title, the callback issues no call.
\<close>

theorem first_matching_action_invoked_once:
  assumes "commands notification = Some actions"
  shows "onPromptResolved notification None = Inr [] \<and>
         (\<forall>t i. i < length actions \<and> title (actions ! i) = t
                  \<and> (\<forall>j<i. title (actions ! j) \<noteq> t) \<longrightarrow>
            onPromptResolved notification (Some t) =
              Inr [ExecuteCommand (command (actions ! i))
                     (case arguments (actions ! i) of Some args \<Rightarrow> args | None \<Rightarrow> [])]) \<and>
         (\<forall>t. (\<forall>a \<in> set actions. title a \<noteq> t) \<longrightarrow>
            onPromptResolved notification (Some t) = Inr [])"
  using assms
  by (simp add: onPromptResolved_def run_selection_dismissed run_selection_no_match
      run_selection_first_match)

theorem first_matching_action_invoked_once_witness:
  "commands example_message =
     Some [\<lparr>title = ''Fix'', command = ''x.fix'', arguments = Some [JNum 1]\<rparr>,
           \<lparr>title = ''Ignore'', command = ''x.ignore'', arguments = None\<rparr>,
           \<lparr>title = ''Fix'', command = ''x.other'', arguments = Some []\<rparr>] \<and>
   onPromptResolved example_message None = Inr [] \<and>
   onPromptResolved example_message (Some ''Fix'') = Inr [ExecuteCommand ''x.fix'' [JNum 1]] \<and>
   onPromptResolved example_message (Some ''Ignore'') = Inr [ExecuteCommand ''x.ignore'' []] \<and>
   onPromptResolved example_message (Some ''Open'') = Inr []"
proof -
  let ?actions = "[\<lparr>title = ''Fix'', command = ''x.fix'', arguments = Some [JNum 1]\<rparr>,
                   \<lparr>title = ''Ignore'', command = ''x.ignore'', arguments = None\<rparr>,
                   \<lparr>title = ''Fix'', command = ''x.other'', arguments = Some []\<rparr>]"
  have present: "commands example_message = Some ?actions"
    by (simp add: example_message_def)
  note props = first_matching_action_invoked_once [OF present]
  from props have dismissed: "onPromptResolved example_message None = Inr []"
    by blast
  from props have first:
    "\<And>t i. i < length ?actions \<Longrightarrow> title (?actions ! i) = t
       \<Longrightarrow> (\<forall>j<i. title (?actions ! j) \<noteq> t)
       \<Longrightarrow> onPromptResolved example_message (Some t) =
             Inr [ExecuteCommand (command (?actions ! i))
                    (case arguments (?actions ! i) of Some args \<Rightarrow> args | None \<Rightarrow> [])]"
    by blast
  from props have unmatched:
    "\<And>t. (\<forall>a \<in> set ?actions. title a \<noteq> t)
       \<Longrightarrow> onPromptResolved example_message (Some t) = Inr []"
    by blast
  have fixed: "onPromptResolved example_message (Some ''Fix'') =
      Inr [ExecuteCommand ''x.fix'' [JNum 1]]"
    using first [of 0 "''Fix''"] by simp
  have ignored: "onPromptResolved example_message (Some ''Ignore'') =
      Inr [ExecuteCommand ''x.ignore'' []]"
    using first [of 1 "''Ignore''"] by simp
  have other: "onPromptResolved example_message (Some ''Open'') = Inr []"
    using unmatched [of "''Open''"] by simp
  from present dismissed fixed ignored other show ?thesis by simp
qed

text \<open>
  Claim C4. For a message whose severity is information, warning or error, the handler
  reads the list of actions whether or not the message has one: with a list (an empty
  one too) it shows one prompt whose buttons are the list's titles and does not fail,
  and without a list it fails and shows nothing. So the handler fails exactly on the
  messages of a recognised severity that have no list of actions.
\<close>

theorem handler_total_iff_commands_present:
  "(onActionableNotification notification = Inl TypeError \<longleftrightarrow>
      (severity notification = MessageType_Info
         \<or> severity notification = MessageType_Warning
         \<or> severity notification = MessageType_Error)
      \<and> commands notification = None) \<and>
   (\<forall>p actions. select_show (severity notification) = Some p
        \<and> commands notification = Some actions \<longrightarrow>
      onActionableNotification notification =
        Inr [ShowMessage p (message notification) (map title actions)]) \<and>
   (\<forall>e. onActionableNotification notification = Inl e \<longrightarrow> e = TypeError)"
proof (intro conjI allI impI)
  show "onActionableNotification notification = Inl TypeError \<longleftrightarrow>
      (severity notification = MessageType_Info
         \<or> severity notification = MessageType_Warning
         \<or> severity notification = MessageType_Error)
      \<and> commands notification = None"
    using select_show_None [of "severity notification"]
    by (auto simp: onActionableNotification_def split: option.splits)
next
  fix p actions
  assume "select_show (severity notification) = Some p
            \<and> commands notification = Some actions"
  then show "onActionableNotification notification =
      Inr [ShowMessage p (message notification) (map title actions)]"
    by (simp add: onActionableNotification_def)
next
  fix e
  assume "onActionableNotification notification = Inl e"
  then show "e = TypeError"
    by (simp add: onActionableNotification_def split: option.splits)
qed

theorem handler_total_iff_commands_present_witness:
  "onActionableNotification (example_message\<lparr>commands := None\<rparr>) = Inl TypeError \<and>
   onActionableNotification (example_message\<lparr>commands := Some []\<rparr>) =
     Inr [ShowMessage showWarningMessage ''The schema could not be loaded'' []] \<and>
   onActionableNotification example_message =
     Inr [ShowMessage showWarningMessage ''The schema could not be loaded''
            [''Fix'', ''Ignore'', ''Fix'']]"
proof -
  have absent: "onActionableNotification (example_message\<lparr>commands := None\<rparr>) = Inl TypeError"
    using handler_total_iff_commands_present [of "example_message\<lparr>commands := None\<rparr>"]
    by (simp add: example_message_def)
  have style: "select_show MessageType_Warning = Some showWarningMessage"
    by (simp add: select_show_Some)
  have empty: "onActionableNotification (example_message\<lparr>commands := Some []\<rparr>) =
      Inr [ShowMessage showWarningMessage ''The schema could not be loaded'' []]"
    using handler_total_iff_commands_present [of "example_message\<lparr>commands := Some []\<rparr>"] style
    by (simp add: example_message_def)
  have full: "onActionableNotification example_message =
      Inr [ShowMessage showWarningMessage ''The schema could not be loaded''
             [''Fix'', ''Ignore'', ''Fix'']]"
    using handler_total_iff_commands_present [of example_message] style
    by (simp add: example_message_def)
  from absent empty full show ?thesis by simp
qed

subsection \<open>Telemetry\<close>

lemma onTelemetry_initialized:
  assumes "name e = SERVER_INITIALIZED_EVT T" and "properties e = Some a"
  shows "onTelemetry T S w e hp =
           Inr (hp(a := (hp a)(SETTINGS_EVT T \<mapsto>
                           JObj [(''preferBinary'', server_preferBinary S w)])),
                [SendTelemetry (STARTUP_EVT T) (Some a)])"
  using assms by (simp add: onTelemetry_def)

lemma onTelemetry_initialized_absent:
  assumes "name e = SERVER_INITIALIZED_EVT T" and "properties e = None"
  shows "onTelemetry T S w e hp = Inl TypeError"
  using assms by (simp add: onTelemetry_def)

lemma onTelemetry_other:
  assumes "name e \<noteq> SERVER_INITIALIZED_EVT T"
  shows "onTelemetry T S w e hp = Inr (hp, [SendTelemetry (name e) (properties e)])"
  using assms by (simp add: onTelemetry_def)

text \<open>
  The handler fails on the server-initialized events without properties, and on no
  other event.
\<close>

lemma onTelemetry_fails_iff:
  "onTelemetry T S w e hp = Inl err \<longleftrightarrow>
     err = TypeError \<and> name e = SERVER_INITIALIZED_EVT T \<and> properties e = None"
  by (auto simp: onTelemetry_def split: option.splits)

text \<open>
  For an event that carries properties the sink receives what claim C5 says: the startup
  event name and the properties with the settings property set for the
  server-initialized event, the event's own name and its properties as they were for any
  other event. An event of another name is forwarded as it is without properties too.
\<close>

lemma telemetry_forwarded_with_properties:
  assumes "properties e = Some a"
  shows "telemetry_sink (onTelemetry T S w e hp) =
     (if name e = SERVER_INITIALIZED_EVT T
      then [(STARTUP_EVT T,
             Some ((hp a)(SETTINGS_EVT T \<mapsto>
                     JObj [(''preferBinary'', server_preferBinary S w)])))]
      else [(name e, Some (hp a))])"
proof (cases "name e = SERVER_INITIALIZED_EVT T")
  case True
  with assms show ?thesis
    by (simp add: telemetry_sink_def onTelemetry_initialized)
next
  case False
  with assms show ?thesis
    by (simp add: telemetry_sink_def onTelemetry_other)
qed

lemma telemetry_forwarded_other_name:
  assumes "name e \<noteq> SERVER_INITIALIZED_EVT T"
  shows "telemetry_sink (onTelemetry T S w e hp) = [(name e, map_option hp (properties e))]"
  using assms by (simp add: telemetry_sink_def onTelemetry_other)

text \<open>
  Claim C5. The claim asks that every event of the server-initialized name gets the
  settings property and is forwarded under the startup event name. The handler does not
  do that for such an event that comes without properties: the assignment of line 48
  throws, and the sink receives nothing, whatever the three names, the settings and the
  store are.
\<close>

theorem telemetry_not_forwarded_without_properties:
  "onTelemetry T S w \<lparr>name = SERVER_INITIALIZED_EVT T, properties = None\<rparr> hp
     = Inl TypeError \<and>
   telemetry_sink
     (onTelemetry T S w \<lparr>name = SERVER_INITIALIZED_EVT T, properties = None\<rparr> hp) = []"
  by (simp add: telemetry_sink_def onTelemetry_def)

text \<open>
  The event of the server-initialized name whose properties already hold the settings
  key: no key is added to the object, and the value of a key it had is replaced.
\<close>

theorem settings_key_replaced_counterexample:
  "name \<lparr>name = ''server.initialized'', properties = Some 0\<rparr>
     = SERVER_INITIALIZED_EVT example_names \<and>
   SETTINGS_EVT example_names = ''xml.settings'' \<and>
   (\<exists>hp'. onTelemetry example_names example_settings []
             \<lparr>name = ''server.initialized'', properties = Some 0\<rparr>
             (\<lambda>a. [''xml.settings'' \<mapsto> JStr ''stale''])
           = Inr (hp', [SendTelemetry ''startup'' (Some 0)]) \<and>
         hp' 0 ''xml.settings'' = Some (JObj [(''preferBinary'', JBool False)]) \<and>
         dom (hp' 0) = dom [''xml.settings'' \<mapsto> JStr ''stale''])"
  by (simp add: onTelemetry_def example_names_def example_settings_def)

text \<open>
  Claim C10, amended. For the server-initialized event that carries a properties object,
  the handler changes the store at the address of that object only, and there it sets the
  settings key (adding the key when the object does not have it, replacing its value when
  it does) and leaves every other key as it was; it forwards that address. For an event
  of any other name the store is unchanged and what the event has for properties is
  forwarded.
\<close>

theorem telemetry_frame:
  "(name e = SERVER_INITIALIZED_EVT T \<and> properties e = Some a \<longrightarrow>
      (\<exists>hp'. onTelemetry T S w e hp
                = Inr (hp', [SendTelemetry (STARTUP_EVT T) (Some a)]) \<and>
         hp' a (SETTINGS_EVT T)
           = Some (JObj [(''preferBinary'', server_preferBinary S w)]) \<and>
         (\<forall>k. k \<noteq> SETTINGS_EVT T \<longrightarrow> hp' a k = hp a k) \<and>
         dom (hp' a) = insert (SETTINGS_EVT T) (dom (hp a)) \<and>
         (\<forall>b. b \<noteq> a \<longrightarrow> hp' b = hp b))) \<and>
   (name e \<noteq> SERVER_INITIALIZED_EVT T \<longrightarrow>
      onTelemetry T S w e hp = Inr (hp, [SendTelemetry (name e) (properties e)]))"
proof (intro conjI impI)
  assume "name e = SERVER_INITIALIZED_EVT T \<and> properties e = Some a"
  then have "onTelemetry T S w e hp =
      Inr (hp(a := (hp a)(SETTINGS_EVT T \<mapsto>
                      JObj [(''preferBinary'', server_preferBinary S w)])),
           [SendTelemetry (STARTUP_EVT T) (Some a)])"
    by (simp add: onTelemetry_initialized)
  then show "\<exists>hp'. onTelemetry T S w e hp
                = Inr (hp', [SendTelemetry (STARTUP_EVT T) (Some a)]) \<and>
         hp' a (SETTINGS_EVT T)
           = Some (JObj [(''preferBinary'', server_preferBinary S w)]) \<and>
         (\<forall>k. k \<noteq> SETTINGS_EVT T \<longrightarrow> hp' a k = hp a k) \<and>
         dom (hp' a) = insert (SETTINGS_EVT T) (dom (hp a)) \<and>
         (\<forall>b. b \<noteq> a \<longrightarrow> hp' b = hp b)"
    by simp
next
  assume "name e \<noteq> SERVER_INITIALIZED_EVT T"
  then show "onTelemetry T S w e hp = Inr (hp, [SendTelemetry (name e) (properties e)])"
    by (rule onTelemetry_other)
qed

theorem telemetry_frame_witness:
  "(\<exists>hp'. onTelemetry example_names example_settings []
             \<lparr>name = ''server.initialized'', properties = Some 0\<rparr>
             (\<lambda>a. [''version'' \<mapsto> JStr ''0.21''])
           = Inr (hp', [SendTelemetry ''startup'' (Some 0)]) \<and>
         hp' 0 ''xml.settings'' = Some (JObj [(''preferBinary'', JBool False)]) \<and>
         hp' 0 ''version'' = Some (JStr ''0.21'') \<and>
         hp' 1 = [''version'' \<mapsto> JStr ''0.21'']) \<and>
   onTelemetry example_names example_settings []
     \<lparr>name = ''server.document.open'', properties = Some 1\<rparr>
     (\<lambda>a. [''version'' \<mapsto> JStr ''0.21''])
     = Inr ((\<lambda>a. [''version'' \<mapsto> JStr ''0.21'']),
            [SendTelemetry ''server.document.open'' (Some 1)])"
proof -
  let ?hp = "(\<lambda>a. [''version'' \<mapsto> JStr ''0.21'']) :: heap"
  let ?init = "\<lparr>name = ''server.initialized'', properties = Some 0\<rparr>"
  let ?open = "\<lparr>name = ''server.document.open'', properties = Some 1\<rparr>"
  have is_init: "name ?init = SERVER_INITIALIZED_EVT example_names \<and> properties ?init = Some 0"
    by (simp add: example_names_def)
  have is_other: "name ?open \<noteq> SERVER_INITIALIZED_EVT example_names"
    by (simp add: example_names_def)
  note at_init = telemetry_frame [of ?init example_names 0 example_settings "[]" ?hp]
  note at_open = telemetry_frame [of ?open example_names 1 example_settings "[]" ?hp]
  from at_init is_init obtain hp' where
    sent: "onTelemetry example_names example_settings [] ?init ?hp
             = Inr (hp', [SendTelemetry (STARTUP_EVT example_names) (Some 0)])"
    and set: "hp' 0 (SETTINGS_EVT example_names)
             = Some (JObj [(''preferBinary'', server_preferBinary example_settings [])])"
    and kept: "\<forall>k. k \<noteq> SETTINGS_EVT example_names \<longrightarrow> hp' 0 k = ?hp 0 k"
    and others: "\<forall>b. b \<noteq> 0 \<longrightarrow> hp' b = ?hp b"
    by blast
  from kept have version: "hp' 0 ''version'' = Some (JStr ''0.21'')"
    by (simp add: example_names_def)
  from others have untouched: "hp' 1 = [''version'' \<mapsto> JStr ''0.21'']"
    by simp
  from sent set version untouched
  have first: "\<exists>hp'. onTelemetry example_names example_settings [] ?init ?hp
           = Inr (hp', [SendTelemetry ''startup'' (Some 0)]) \<and>
         hp' 0 ''xml.settings'' = Some (JObj [(''preferBinary'', JBool False)]) \<and>
         hp' 0 ''version'' = Some (JStr ''0.21'') \<and>
         hp' 1 = [''version'' \<mapsto> JStr ''0.21'']"
    by (intro exI [of _ hp']) (simp add: example_names_def example_settings_def)
  from at_open is_other
  have second: "onTelemetry example_names example_settings [] ?open ?hp
      = Inr (?hp, [SendTelemetry ''server.document.open'' (Some 1)])"
    by simp
  from first second show ?thesis by blast
qed

subsection \<open>Active editor changes\<close>

text \<open>
  Claim C6. On a change of the active editor, when the file associations read at that
  moment hold a variable that refers to the current file, the handler issues two calls
  and no more: one \<^verbatim>\<open>DidChangeConfiguration\<close> notification whose settings are computed from
  the configuration as it is at that moment, and one call of the local
  configuration-changed callback. When they hold none, the handler issues no call.
\<close>

theorem editor_change_pushes_once:
  "(containsVariableReferenceToCurrentFile S (fileAssociations S w) \<longrightarrow>
      count_list (onDidChangeActiveTextEditor S java_home logfile x w)
        (SendNotification DidChangeConfigurationNotification
           (JObj [(''settings'', getXMLSettings S java_home logfile x w)])) = 1 \<and>
      count_list (onDidChangeActiveTextEditor S java_home logfile x w)
        OnConfigurationChange = 1 \<and>
      length (onDidChangeActiveTextEditor S java_home logfile x w) = 2) \<and>
   (\<not> containsVariableReferenceToCurrentFile S (fileAssociations S w) \<longrightarrow>
      onDidChangeActiveTextEditor S java_home logfile x w = [])"
  by (simp add: onDidChangeActiveTextEditor_def)

theorem editor_change_pushes_once_witness:
  "containsVariableReferenceToCurrentFile example_settings
     (fileAssociations example_settings [''*.xsd'', ''${fileBasename}'']) \<and>
   count_list
     (onDidChangeActiveTextEditor example_settings ''/jdk'' ''/log'' ()
        [''*.xsd'', ''${fileBasename}''])
     (SendNotification DidChangeConfigurationNotification
        (JObj [(''settings'',
                JObj [(''java_home'', JStr ''/jdk''), (''logfile'', JStr ''/log''),
                      (''fileAssociations'',
                       JArr [JStr ''*.xsd'', JStr ''${fileBasename}''])])])) = 1 \<and>
   count_list
     (onDidChangeActiveTextEditor example_settings ''/jdk'' ''/log'' ()
        [''*.xsd'', ''${fileBasename}''])
     OnConfigurationChange = 1 \<and>
   \<not> containsVariableReferenceToCurrentFile example_settings
       (fileAssociations example_settings [''*.xsd'']) \<and>
   onDidChangeActiveTextEditor example_settings ''/jdk'' ''/log'' () [''*.xsd''] = []"
proof -
  have refers: "containsVariableReferenceToCurrentFile example_settings
      (fileAssociations example_settings [''*.xsd'', ''${fileBasename}''])"
    by (simp add: example_settings_def)
  have plain: "\<not> containsVariableReferenceToCurrentFile example_settings
      (fileAssociations example_settings [''*.xsd''])"
    by (simp add: example_settings_def)
  have settings: "getXMLSettings example_settings ''/jdk'' ''/log'' ()
      [''*.xsd'', ''${fileBasename}''] =
      JObj [(''java_home'', JStr ''/jdk''), (''logfile'', JStr ''/log''),
            (''fileAssociations'', JArr [JStr ''*.xsd'', JStr ''${fileBasename}''])]"
    by (simp add: example_settings_def)
  from refers settings
    editor_change_pushes_once [of example_settings "[''*.xsd'', ''${fileBasename}'']"
      "''/jdk''" "''/log''" "()"]
  have "count_list
     (onDidChangeActiveTextEditor example_settings ''/jdk'' ''/log'' ()
        [''*.xsd'', ''${fileBasename}''])
     (SendNotification DidChangeConfigurationNotification
        (JObj [(''settings'',
                JObj [(''java_home'', JStr ''/jdk''), (''logfile'', JStr ''/log''),
                      (''fileAssociations'',
                       JArr [JStr ''*.xsd'', JStr ''${fileBasename}''])])])) = 1"
    and "count_list
     (onDidChangeActiveTextEditor example_settings ''/jdk'' ''/log'' ()
        [''*.xsd'', ''${fileBasename}''])
     OnConfigurationChange = 1"
    by simp_all
  moreover from plain
    editor_change_pushes_once [of example_settings "[''*.xsd'']" "''/jdk''" "''/log''" "()"]
  have "onDidChangeActiveTextEditor example_settings ''/jdk'' ''/log'' () [''*.xsd''] = []"
    by simp
  ultimately show ?thesis
    using refers plain by simp
qed

subsection \<open>Workspace trust\<close>

text \<open>
  Claim C8. Once the client has started, \<^verbatim>\<open>startLanguageClient\<close> returns without an error
  whether or not the host has the trust-granted event, and it subscribes to the event
  exactly when the host has it. On a grant of trust the handler sends one
  \<^verbatim>\<open>DidChangeConfiguration\<close> notification whose settings are computed from the
  configuration as it is at that moment, then updates
  \<^verbatim>\<open>downloadExternalResources.enabled\<close> of \<^verbatim>\<open>xml\<close> to \<^verbatim>\<open>true\<close>; whatever the host's
  configuration held before, it holds \<^verbatim>\<open>true\<close> for that key afterwards.
\<close>

theorem trust_grant_pushes_and_enables_download:
  "(\<exists>subs. startLanguageClient api True = Inr subs \<and>
      (DidGrantWorkspaceTrust \<in> set subs \<longleftrightarrow> workspace_onDidGrantWorkspaceTrust api) \<and>
      count_list subs DidGrantWorkspaceTrust
        = (if workspace_onDidGrantWorkspaceTrust api then 1 else 0)) \<and>
   onDidGrantWorkspaceTrust S java_home logfile x w =
     [SendNotification DidChangeConfigurationNotification
        (JObj [(''settings'', getXMLSettings S java_home logfile x w)]),
      ConfigurationUpdate ''xml'' ''downloadExternalResources.enabled'' (JBool True)] \<and>
   configuration (host_run h (onDidGrantWorkspaceTrust S java_home logfile x w))
     (''xml'', ''downloadExternalResources.enabled'') = Some (JBool True)"
  by (simp add: startLanguageClient_def onDidGrantWorkspaceTrust_def host_run_def)

subsection \<open>The synchronisation filter\<close>

text \<open>
  Claim C9. The configuration sections the client options give the library to
  synchronise are the six strings \<^verbatim>\<open>xml\<close>, \<^verbatim>\<open>[xml]\<close>, \<^verbatim>\<open>files.trimFinalNewlines\<close>,
  \<^verbatim>\<open>files.trimTrailingWhitespace\<close>, \<^verbatim>\<open>files.insertFinalNewline\<close> and
  \<^verbatim>\<open>editor.linkedEditing\<close>, in this order, whatever the other arguments are; and a
  preference triggers a change notification exactly when it starts with one of the six.
\<close>

theorem synchronize_filter_exact:
  "synchronize_configurationSection
     (getLanguageClientOptions S logfile x java_home w) =
     [''xml'', ''[xml]'', ''files.trimFinalNewlines'', ''files.trimTrailingWhitespace'',
      ''files.insertFinalNewline'', ''editor.linkedEditing''] \<and>
   (triggers_didChangeConfiguration (getLanguageClientOptions S logfile x java_home w)
      preference \<longleftrightarrow>
      prefix ''xml'' preference \<or> prefix ''[xml]'' preference
        \<or> prefix ''files.trimFinalNewlines'' preference
        \<or> prefix ''files.trimTrailingWhitespace'' preference
        \<or> prefix ''files.insertFinalNewline'' preference
        \<or> prefix ''editor.linkedEditing'' preference)"
  by (simp add: getLanguageClientOptions_def triggers_didChangeConfiguration_def)

end
